theory Spec2Isabelle
  imports Main
begin

section \<open>Values, errors and promises\<close>

text \<open>
  The monitor is one JavaScript file, \<^verbatim>\<open>main.js\<close>. The cell \<^verbatim>\<open>lastStatus\<close> holds either a
  number (an HTTP status code) or the string \<^verbatim>\<open>"DOWN"\<close>; \<open>jsval\<close> keeps the two primitive
  types apart, and \<^verbatim>\<open>!==\<close> on them is inequality of \<open>jsval\<close>.
\<close>

datatype jsval = JNum int | JStr string

text \<open>
  A thrown value, as far as the program reads it: \<^verbatim>\<open>error.message\<close> and
  \<^verbatim>\<open>error.response\<close>. \<open>response e = None\<close> says that \<^verbatim>\<open>error.response\<close> is undefined (an
  error raised before any reply arrived); \<open>Some d\<close> says that it is an object whose
  \<^verbatim>\<open>data\<close> is \<open>d\<close>.
\<close>

record js_error =
  message :: string
  response :: "string option"

text \<open>How an awaited promise settles.\<close>

datatype 'a outcome = Resolved 'a | Rejected js_error

record http_response =
  status :: int
  data :: string

section \<open>Observable events and the state of the process\<close>

datatype level = LOG | INFO | WARN | ERROR

text \<open>
  One argument of a \<^verbatim>\<open>console\<close> call. The pictographs that open the program's messages
  are outside ASCII and are left out of every text. \<open>Seconds v\<close> stands for the number
  \<^verbatim>\<open>CHECK_INTERVAL / 1000\<close>, a floating-point quotient that is kept symbolic.
\<close>

datatype logged =
    Text string
  | ResponseObject string int
  | ErrorObject js_error
  | Seconds jsval

datatype event =
    Console level "logged list"
  | HttpGet string
  | TelegramPost string string string
  | SlackPost "string option" string
  | SmsPost "string option" string "string list"
  | Notify string
  | Assign jsval
  | SetInterval jsval
  | Exit int

text \<open>
  \<open>trace\<close> lists what the process has done so far, oldest first. \<open>Notify m\<close> marks a call
  of \<^verbatim>\<open>sendNotification(m)\<close> (one alert), \<open>HttpGet u\<close> one probe attempt, \<open>Assign v\<close> a
  write of \<open>v\<close> to \<^verbatim>\<open>lastStatus\<close>; the three \<open>Post\<close> events are the requests of the
  backends, with the constants they pass as they are (possibly undefined). \<open>gets\<close> and
  \<open>dispatches\<close> count the probe requests and the dispatches issued so far; they index
  the transport's answers.
\<close>

record world =
  lastStatus :: jsval
  trace :: "event list"
  gets :: nat
  dispatches :: nat

text \<open>The constants read from the environment (lines 6 to 24).\<close>

record config =
  TELEGRAM_BOT_TOKEN :: "string option"
  TELEGRAM_CHAT_IDS :: "string list"
  SLACK_WEBHOOK_URL :: "string option"
  URL_TO_CHECK :: "string option"
  CHECK_INTERVAL :: jsval
  SMS_API_KEY :: "string option"
  SMS_LINE_NUMBER :: "string option"
  SMS_PHONE_NUMBERS :: "string list"
  PROXY_TYPE :: "string option"
  PROXY_HOST :: "string option"
  PROXY_PORT :: "string option"
  PROXY_USERNAME :: "string option"
  PROXY_PASSWORD :: "string option"

text \<open>
  The HTTP library is a parameter. \<open>http_get orc k\<close> is how the \<open>k\<close>-th
  \<^verbatim>\<open>http.get\<close> of the process settles; \<open>telegram_posts orc k ids\<close> lists how the posts of
  the \<open>k\<close>-th dispatch to the chat identifiers \<open>ids\<close> settle, in the order in which they
  settle; \<open>slack_post orc k\<close> and \<open>sms_post orc k\<close> are the settlements of the webhook
  post and of the bulk-send post of the \<open>k\<close>-th dispatch. Which replies the library
  resolves and which it rejects is not decided here.
\<close>

record transport =
  http_get :: "nat \<Rightarrow> http_response outcome"
  telegram_posts :: "nat \<Rightarrow> string list \<Rightarrow> unit outcome list"
  slack_post :: "nat \<Rightarrow> unit outcome"
  sms_post :: "nat \<Rightarrow> unit outcome"

definition MAX_RETRIES :: nat where
  "MAX_RETRIES = 3"

section \<open>Strings\<close>

text \<open>Decimal rendering of the numbers that appear in template literals.\<close>

fun show_nat :: "nat \<Rightarrow> string" where
  "show_nat n =
     (if n < 10 then [char_of (48 + n)]
      else show_nat (n div 10) @ [char_of (48 + n mod 10)])"

declare show_nat.simps [simp del]

definition show_int :: "int \<Rightarrow> string" where
  "show_int i = (if i < 0 then CHR ''-'' # show_nat (nat (- i)) else show_nat (nat i))"

text \<open>A constant that may be undefined, inside a template literal.\<close>

definition render :: "string option \<Rightarrow> string" where
  "render v = (case v of None \<Rightarrow> ''undefined'' | Some s \<Rightarrow> s)"

text \<open>Truthiness of a string-or-undefined value: undefined and the empty string are falsy.\<close>

definition truthy :: "string option \<Rightarrow> bool" where
  "truthy v = (case v of None \<Rightarrow> False | Some s \<Rightarrow> s \<noteq> [])"

text \<open>\<^verbatim>\<open>s.split(",")\<close>: always at least one piece.\<close>

fun split_on :: "char \<Rightarrow> string \<Rightarrow> string list" where
  "split_on c [] = [[]]"
| "split_on c (x # xs) =
     (if x = c then [] # split_on c xs
      else (case split_on c xs of
              [] \<Rightarrow> [[x]]
            | y # ys \<Rightarrow> (x # y) # ys))"

text \<open>\<^verbatim>\<open>process.env.X ? process.env.X.split(",") : []\<close>\<close>

definition split_list :: "string option \<Rightarrow> string list" where
  "split_list v = (if truthy v then split_on (CHR '','') (render v) else [])"

text \<open>\<^verbatim>\<open>trim\<close> and \<^verbatim>\<open>toUpperCase\<close>, on ASCII.\<close>

definition is_space :: "char \<Rightarrow> bool" where
  "is_space c = (c \<in> set [CHR 0x09, CHR 0x0A, CHR 0x0B, CHR 0x0C, CHR 0x0D, CHR 0x20])"

definition trim :: "string \<Rightarrow> string" where
  "trim s = rev (dropWhile is_space (rev (dropWhile is_space s)))"

definition toUpperCase :: "string \<Rightarrow> string" where
  "toUpperCase s =
     map (\<lambda>c. if (97::nat) \<le> of_char c \<and> of_char c \<le> (122::nat)
              then char_of (of_char c - (32::nat)) else c) s"

section \<open>Writing to the trace and to the cell\<close>

definition emits :: "event list \<Rightarrow> world \<Rightarrow> world" where
  "emits es w = w\<lparr>trace := trace w @ es\<rparr>"

definition emit :: "event \<Rightarrow> world \<Rightarrow> world" where
  "emit e w = emits [e] w"

definition console :: "level \<Rightarrow> logged list \<Rightarrow> world \<Rightarrow> world" where
  "console l xs w = emit (Console l xs) w"

definition assign :: "jsval \<Rightarrow> world \<Rightarrow> world" where
  "assign v w = (emit (Assign v) w)\<lparr>lastStatus := v\<rparr>"

section \<open>Notifier backends (lines 116 to 168)\<close>

text \<open>
  \<^verbatim>\<open>Promise.all\<close> resolves when every promise resolves and rejects with the first
  rejection; the list is read in the order of settlement.
\<close>

fun promise_all :: "'a outcome list \<Rightarrow> 'a list outcome" where
  "promise_all [] = Resolved []"
| "promise_all (Resolved x # ps) =
     (case promise_all ps of
        Resolved xs \<Rightarrow> Resolved (x # xs)
      | Rejected e \<Rightarrow> Rejected e)"
| "promise_all (Rejected e # ps) = Rejected e"

text \<open>
  What reading \<^verbatim>\<open>error.response.data\<close> throws when \<^verbatim>\<open>error.response\<close> is undefined.
\<close>

definition undefined_data_error :: js_error where
  "undefined_data_error =
     \<lparr>message = ''Cannot read properties of undefined (reading 'data')'', response = None\<rparr>"

text \<open>
  \<^verbatim>\<open>sendTelegramMessage\<close>: one post per chat identifier, awaited together. The handler of
  the \<^verbatim>\<open>catch\<close> logs the message, then \<^verbatim>\<open>error.response.data\<close>, then the error; the
  second of these reads a property of \<^verbatim>\<open>error.response\<close>.
\<close>

definition sendTelegramMessage ::
  "config \<Rightarrow> transport \<Rightarrow> nat \<Rightarrow> string \<Rightarrow> world \<Rightarrow> unit outcome \<times> world" where
  "sendTelegramMessage cfg orc k msg w =
     (let telegramApiUrl =
            ''https://api.telegram.org/bot'' @ render (TELEGRAM_BOT_TOKEN cfg) @ ''/sendMessage'';
          chat_ids = map trim (TELEGRAM_CHAT_IDS cfg);
          w1 = emits (map (\<lambda>chatId. TelegramPost telegramApiUrl chatId msg) chat_ids) w
      in case promise_all (telegram_posts orc k chat_ids) of
           Resolved _ \<Rightarrow>
             (Resolved (), console INFO [Text ''Telegram notification sent.''] w1)
         | Rejected error \<Rightarrow>
             (let w2 = console ERROR
                         [Text ''Failed to send Telegram message:'', Text (message error)] w1
              in case response error of
                   None \<Rightarrow> (Rejected undefined_data_error, w2)
                 | Some d \<Rightarrow>
                     (Resolved (),
                      console ERROR [ErrorObject error] (console ERROR [Text d] w2))))"

text \<open>
  A call of \<^verbatim>\<open>http.post\<close> returns a promise at once; how the promise settles is seen
  only by an \<^verbatim>\<open>await\<close>. \<open>Inl\<close> would be an exception thrown by the call itself.
\<close>

datatype 'a promise = Promise "'a outcome"

definition http_post :: "'a outcome \<Rightarrow> js_error + 'a promise" where
  "http_post settlement = Inr (Promise settlement)"

text \<open>
  \<^verbatim>\<open>sendSmsMessage\<close>: the promise returned by \<^verbatim>\<open>http.post\<close> is dropped, not awaited, so
  the \<^verbatim>\<open>catch\<close> sees only what the call itself throws.
\<close>

definition sendSmsMessage ::
  "config \<Rightarrow> transport \<Rightarrow> nat \<Rightarrow> string \<Rightarrow> world \<Rightarrow> unit outcome \<times> world" where
  "sendSmsMessage cfg orc k msg w =
     (let w1 = emit (SmsPost (SMS_LINE_NUMBER cfg) msg (SMS_PHONE_NUMBERS cfg)) w
      in case http_post (sms_post orc k) of
           Inr dropped \<Rightarrow> (Resolved (), console INFO [Text ''Sms message sent.''] w1)
         | Inl error \<Rightarrow>
             (Resolved (),
              console ERROR [Text ''Failed to send Sms message:'', Text (message error)] w1))"

definition sendSlackMessage ::
  "config \<Rightarrow> transport \<Rightarrow> nat \<Rightarrow> string \<Rightarrow> world \<Rightarrow> unit outcome \<times> world" where
  "sendSlackMessage cfg orc k msg w =
     (let w1 = emit (SlackPost (SLACK_WEBHOOK_URL cfg) msg) w
      in case slack_post orc k of
           Resolved _ \<Rightarrow> (Resolved (), console INFO [Text ''Slack notification sent.''] w1)
         | Rejected error \<Rightarrow>
             (Resolved (),
              console ERROR [Text ''Failed to send Slack message:'', Text (message error)] w1))"

section \<open>Dispatch (lines 108 to 114)\<close>

text \<open>
  The three backends are started together and awaited with \<^verbatim>\<open>Promise.all\<close>. The model runs
  them one after the other; the interleaving of their log lines is not modelled.
\<close>

definition sendNotification ::
  "config \<Rightarrow> transport \<Rightarrow> string \<Rightarrow> world \<Rightarrow> unit outcome \<times> world" where
  "sendNotification cfg orc msg w =
     (let k = dispatches w;
          w0 = (emit (Notify msg) w)\<lparr>dispatches := k + 1\<rparr>;
          (r1, w1) = sendTelegramMessage cfg orc k msg w0;
          (r2, w2) = sendSlackMessage cfg orc k msg w1;
          (r3, w3) = sendSmsMessage cfg orc k msg w2
      in case promise_all [r1, r2, r3] of
           Resolved _ \<Rightarrow> (Resolved (), w3)
         | Rejected e \<Rightarrow> (Rejected e, w3))"

section \<open>The probe cycle (lines 68 to 105)\<close>

text \<open>
  The body of the \<^verbatim>\<open>try\<close> block, lines 70 to 87. It holds the request and also both
  awaited dispatches, so a rejection of either reaches the \<^verbatim>\<open>catch\<close>.
\<close>

definition try_body :: "config \<Rightarrow> transport \<Rightarrow> world \<Rightarrow> unit outcome \<times> world" where
  "try_body cfg orc w =
     (let url = render (URL_TO_CHECK cfg);
          w1 = (emit (HttpGet url) w)\<lparr>gets := gets w + 1\<rparr>
      in case http_get orc (gets w) of
           Rejected error \<Rightarrow> (Rejected error, w1)
         | Resolved resp \<Rightarrow>
             if status resp = 200 then
               (let w2 = console LOG [ResponseObject (data resp) (status resp)] w1
                in if lastStatus w2 \<noteq> JNum 200 then
                     (let w3 = console INFO [Text (''Website is back online: '' @ url)] w2
                      in case sendNotification cfg orc (''Website is back online: '' @ url) w3 of
                           (Rejected error, w4) \<Rightarrow> (Rejected error, w4)
                         | (Resolved _, w4) \<Rightarrow> (Resolved (), assign (JNum 200) w4))
                   else (Resolved (), assign (JNum 200) w2))
             else
               (if lastStatus w1 \<noteq> JNum (status resp) then
                  (let w3 = console WARN
                              [Text (''Website down! Status: '' @ show_int (status resp))] w1
                   in case sendNotification cfg orc
                             (''Website down! Status: '' @ show_int (status resp)) w3 of
                        (Rejected error, w4) \<Rightarrow> (Rejected error, w4)
                      | (Resolved _, w4) \<Rightarrow> (Resolved (), assign (JNum (status resp)) w4))
                else (Resolved (), assign (JNum (status resp)) w1)))"

text \<open>
  \<^verbatim>\<open>checkWebsite(retries)\<close>: the \<^verbatim>\<open>catch\<close> retries while \<^verbatim>\<open>retries < MAX_RETRIES\<close> and
  otherwise reports the error. The dispatch of line 99 is outside the \<^verbatim>\<open>try\<close>, so its
  rejection rejects the call.
\<close>

function checkWebsite ::
  "config \<Rightarrow> transport \<Rightarrow> nat \<Rightarrow> world \<Rightarrow> unit outcome \<times> world" where
  "checkWebsite cfg orc retries w =
     (case try_body cfg orc w of
        (Resolved u, w1) \<Rightarrow> (Resolved u, w1)
      | (Rejected error, w1) \<Rightarrow>
          if retries < MAX_RETRIES then
            checkWebsite cfg orc (retries + 1)
              (console WARN
                 [Text (''Retry '' @ show_nat (retries + 1) @ ''/'' @ show_nat MAX_RETRIES
                        @ '': Checking '' @ render (URL_TO_CHECK cfg) @ '' again...'')] w1)
          else
            (if lastStatus w1 \<noteq> JStr ''DOWN'' then
               (let w2 = console ERROR
                           [Text (''Error accessing the website: '' @ message error)] w1
                in case sendNotification cfg orc
                          (''Error accessing the website: '' @ message error) w2 of
                     (Rejected e, w3) \<Rightarrow> (Rejected e, w3)
                   | (Resolved _, w3) \<Rightarrow> (Resolved (), assign (JStr ''DOWN'') w3))
             else (Resolved (), assign (JStr ''DOWN'') w1)))"
  by pat_completeness auto
termination
  by (relation "measure (\<lambda>(cfg, orc, retries, w). MAX_RETRIES - retries)") auto

declare checkWebsite.simps [simp del]

text \<open>
  The timer calls \<^verbatim>\<open>checkWebsite\<close> without an argument, so \<^verbatim>\<open>retries\<close> takes its default.
  \<open>run_cycles n\<close> is \<open>n\<close> firings of the timer, each cycle finished before the next one
  starts; a cycle that rejects leaves the process running.
\<close>

definition cycle :: "config \<Rightarrow> transport \<Rightarrow> world \<Rightarrow> unit outcome \<times> world" where
  "cycle cfg orc w = checkWebsite cfg orc 0 w"

fun run_cycles :: "config \<Rightarrow> transport \<Rightarrow> nat \<Rightarrow> world \<Rightarrow> world" where
  "run_cycles cfg orc 0 w = w"
| "run_cycles cfg orc (Suc n) w = run_cycles cfg orc n (snd (cycle cfg orc w))"

section \<open>Startup (lines 6 to 66 and 170 to 176)\<close>

definition load_config :: "(string \<Rightarrow> string option) \<Rightarrow> config" where
  "load_config penv =
     \<lparr>TELEGRAM_BOT_TOKEN = penv ''TELEGRAM_BOT_TOKEN'',
      TELEGRAM_CHAT_IDS = split_list (penv ''TELEGRAM_CHAT_IDS''),
      SLACK_WEBHOOK_URL = penv ''SLACK_WEBHOOK_URL'',
      URL_TO_CHECK = penv ''URL_TO_CHECK'',
      CHECK_INTERVAL =
        (if truthy (penv ''CHECK_INTERVAL'') then JStr (render (penv ''CHECK_INTERVAL''))
         else JNum 20000),
      SMS_API_KEY = penv ''SMS_API_KEY'',
      SMS_LINE_NUMBER = penv ''SMS_LINE_NUMBER'',
      SMS_PHONE_NUMBERS = split_list (penv ''SMS_PHONE_NUMBERS''),
      PROXY_TYPE = penv ''PROXY_TYPE'',
      PROXY_HOST = penv ''PROXY_HOST'',
      PROXY_PORT = penv ''PROXY_PORT'',
      PROXY_USERNAME = penv ''PROXY_USERNAME'',
      PROXY_PASSWORD = penv ''PROXY_PASSWORD''\<rparr>"

definition initial_world :: world where
  "initial_world = \<lparr>lastStatus = JNum 200, trace = [], gets = 0, dispatches = 0\<rparr>"

datatype process = Running | Exited int

text \<open>
  The script from top to bottom. The construction of the proxy agent is the library's and
  only its log line is kept. \<^verbatim>\<open>process.exit(1)\<close> ends the process, so nothing after it
  runs; otherwise the timer is registered and the first notification is started without
  being awaited.
\<close>

definition main :: "(string \<Rightarrow> string option) \<Rightarrow> transport \<Rightarrow> process \<times> world" where
  "main penv orc =
     (let cfg = load_config penv;
          w0 = (if truthy (PROXY_TYPE cfg) \<and> truthy (PROXY_HOST cfg) \<and> truthy (PROXY_PORT cfg)
                then console INFO
                       [Text (''Using '' @ toUpperCase (render (PROXY_TYPE cfg)) @ '' Proxy: ''
                              @ render (PROXY_HOST cfg) @ '':'' @ render (PROXY_PORT cfg))]
                       initial_world
                else initial_world)
      in if \<not> truthy (TELEGRAM_BOT_TOKEN cfg) \<or> length (TELEGRAM_CHAT_IDS cfg) = 0
            \<or> \<not> truthy (URL_TO_CHECK cfg) \<or> \<not> truthy (SLACK_WEBHOOK_URL cfg)
         then
           (Exited 1,
            emit (Exit 1)
              (console ERROR [Text ''Missing required environment variables in .env file!''] w0))
         else
           (let w1 = emit (SetInterval (CHECK_INTERVAL cfg)) w0;
                w2 = console LOG
                       [Text (''Monitoring '' @ render (URL_TO_CHECK cfg) @ '' every ''),
                        Seconds (CHECK_INTERVAL cfg), Text '' seconds...''] w1
            in (Running, snd (sendNotification cfg orc ''Starting website monitoring...'' w2))))"

section \<open>Reading a trace\<close>

fun is_attempt :: "event \<Rightarrow> bool" where
  "is_attempt (HttpGet u) = True"
| "is_attempt e = False"

fun is_write :: "event \<Rightarrow> bool" where
  "is_write (Assign v) = True"
| "is_write e = False"

fun alert_of :: "event \<Rightarrow> string list" where
  "alert_of (Notify m) = [m]"
| "alert_of e = []"

definition attempts :: "event list \<Rightarrow> nat" where
  "attempts tr = length (filter is_attempt tr)"

definition alerts :: "event list \<Rightarrow> string list" where
  "alerts tr = concat (map alert_of tr)"

text \<open>The events that a step from \<open>w\<close> to \<open>w'\<close> added.\<close>

definition new_events :: "world \<Rightarrow> world \<Rightarrow> event list" where
  "new_events w w' = drop (length (trace w)) (trace w')"

text \<open>
  Events that are neither a probe attempt, nor an alert, nor a write of the cell: log lines
  and the posts of the backends.
\<close>

fun quiet :: "event \<Rightarrow> bool" where
  "quiet (Console l xs) = True"
| "quiet (TelegramPost u c m) = True"
| "quiet (SlackPost u m) = True"
| "quiet (SmsPost l m ns) = True"
| "quiet e = False"

text \<open>
  The posts of dispatch \<open>k\<close> to the chat bot either all resolve, or the rejection that
  \<^verbatim>\<open>Promise.all\<close> reports carries a \<^verbatim>\<open>response\<close>.
\<close>

definition telegram_safe :: "config \<Rightarrow> transport \<Rightarrow> nat \<Rightarrow> bool" where
  "telegram_safe cfg orc k =
     (case promise_all (telegram_posts orc k (map trim (TELEGRAM_CHAT_IDS cfg))) of
        Resolved _ \<Rightarrow> True
      | Rejected error \<Rightarrow> response error \<noteq> None)"

text \<open>The values that the cell is meant to hold: a number, or the string \<^verbatim>\<open>"DOWN"\<close>.\<close>

fun status_ok :: "jsval \<Rightarrow> bool" where
  "status_ok (JNum n) = True"
| "status_ok (JStr s) = (s = ''DOWN'')"

text \<open>The alert that a reply with a given status code produces.\<close>

definition alert_text :: "config \<Rightarrow> int \<Rightarrow> string" where
  "alert_text cfg code =
     (if code = 200 then ''Website is back online: '' @ render (URL_TO_CHECK cfg)
      else ''Website down! Status: '' @ show_int code)"

text \<open>
  The shape of the events that one step adds: when the step returns normally, events that
  are not writes followed by one write, whose value the cell then holds; when it rejects,
  no write at all and the cell unchanged.
\<close>

definition step_shape :: "world \<Rightarrow> unit outcome \<times> world \<Rightarrow> bool" where
  "step_shape w res =
     (\<exists>es. list_all (\<lambda>e. \<not> is_write e) es \<and>
        (case fst res of
           Resolved u \<Rightarrow>
             (\<exists>v. trace (snd res) = trace w @ es @ [Assign v] \<and>
                  lastStatus (snd res) = v \<and> status_ok v)
         | Rejected e \<Rightarrow>
             trace (snd res) = trace w @ es \<and> lastStatus (snd res) = lastStatus w))"

text \<open>
  The log line of the \<open>n\<close>-th retry, and the state after a failed attempt that is retried:
  the request, then the log line.
\<close>

definition retry_line :: "config \<Rightarrow> nat \<Rightarrow> event" where
  "retry_line cfg n =
     Console WARN
       [Text (''Retry '' @ show_nat n @ ''/'' @ show_nat MAX_RETRIES
              @ '': Checking '' @ render (URL_TO_CHECK cfg) @ '' again...'')]"

definition retry_step :: "config \<Rightarrow> nat \<Rightarrow> world \<Rightarrow> world" where
  "retry_step cfg n w =
     emit (retry_line cfg n) ((emit (HttpGet (render (URL_TO_CHECK cfg))) w)\<lparr>gets := gets w + 1\<rparr>)"

section \<open>Concrete environments\<close>

definition demo_env :: "string \<Rightarrow> string option" where
  "demo_env =
     [''URL_TO_CHECK'' \<mapsto> ''http://site.test'', ''TELEGRAM_BOT_TOKEN'' \<mapsto> ''token'',
      ''TELEGRAM_CHAT_IDS'' \<mapsto> ''11, 22'', ''SLACK_WEBHOOK_URL'' \<mapsto> ''http://hook.test'']"

definition demo_config :: config where
  "demo_config = load_config demo_env"

text \<open>An error raised before any reply arrived: it has no \<^verbatim>\<open>response\<close>.\<close>

definition timeout_error :: js_error where
  "timeout_error = \<lparr>message = ''timeout of 5000ms exceeded'', response = None\<rparr>"

text \<open>Every request resolves; the \<open>k\<close>-th probe is answered with status \<open>codes k\<close>.\<close>

definition all_delivered :: "(nat \<Rightarrow> int) \<Rightarrow> transport" where
  "all_delivered codes =
     \<lparr>http_get = (\<lambda>k. Resolved \<lparr>status = codes k, data = []\<rparr>),
      telegram_posts = (\<lambda>k ids. map (\<lambda>i. Resolved ()) ids),
      slack_post = (\<lambda>k. Resolved ()),
      sms_post = (\<lambda>k. Resolved ())\<rparr>"

text \<open>
  The same, except that the posts to the chat bot time out in the dispatches selected by
  \<open>failing\<close>.
\<close>

definition telegram_timeout :: "(nat \<Rightarrow> bool) \<Rightarrow> (nat \<Rightarrow> int) \<Rightarrow> transport" where
  "telegram_timeout failing codes =
     (all_delivered codes)
       \<lparr>telegram_posts :=
          (\<lambda>k ids. map (\<lambda>i. if failing k then Rejected timeout_error else Resolved ()) ids)\<rparr>"

text \<open>No probe ever gets a reply; the notifications are delivered.\<close>

definition site_unreachable :: transport where
  "site_unreachable =
     (all_delivered (\<lambda>k. 200))
       \<lparr>http_get := (\<lambda>k. Rejected \<lparr>message = ''connect ECONNREFUSED'', response = None\<rparr>)\<rparr>"

text \<open>
  Every probe is answered with the same status: with every notification delivered, with the
  posts to the chat bot timing out in the first dispatch only, and with these posts timing
  out in every dispatch.
\<close>

definition steady :: "int \<Rightarrow> transport" where
  "steady c = all_delivered (\<lambda>k. c)"

definition first_dispatch_lost :: "int \<Rightarrow> transport" where
  "first_dispatch_lost c = telegram_timeout (\<lambda>k. k = 0) (\<lambda>k. c)"

definition telegram_dead :: "int \<Rightarrow> transport" where
  "telegram_dead c = telegram_timeout (\<lambda>k. True) (\<lambda>k. c)"


text \<open>The state of a process whose last report was an unreachable site.\<close>

definition was_down :: world where
  "was_down = initial_world\<lparr>lastStatus := JStr ''DOWN''\<rparr>"

section \<open>Basic facts\<close>

lemma emits_fields [simp]:
  "lastStatus (emits es w) = lastStatus w"
  "trace (emits es w) = trace w @ es"
  "gets (emits es w) = gets w"
  "dispatches (emits es w) = dispatches w"
  by (simp_all add: emits_def)

lemma emit_fields [simp]:
  "lastStatus (emit e w) = lastStatus w"
  "trace (emit e w) = trace w @ [e]"
  "gets (emit e w) = gets w"
  "dispatches (emit e w) = dispatches w"
  by (simp_all add: emit_def)

lemma console_fields [simp]:
  "lastStatus (console l xs w) = lastStatus w"
  "trace (console l xs w) = trace w @ [Console l xs]"
  "gets (console l xs w) = gets w"
  "dispatches (console l xs w) = dispatches w"
  by (simp_all add: console_def)

lemma assign_fields [simp]:
  "lastStatus (assign v w) = v"
  "trace (assign v w) = trace w @ [Assign v]"
  "gets (assign v w) = gets w"
  "dispatches (assign v w) = dispatches w"
  by (simp_all add: assign_def)

lemma alerts_append [simp]: "alerts (xs @ ys) = alerts xs @ alerts ys"
  by (simp add: alerts_def)

lemma attempts_append [simp]: "attempts (xs @ ys) = attempts xs + attempts ys"
  by (simp add: attempts_def)

lemma alerts_simps [simp]:
  "alerts [] = []"
  "alerts (e # es) = alert_of e @ alerts es"
  by (simp_all add: alerts_def)

lemma attempts_simps [simp]:
  "attempts [] = 0"
  "attempts (e # es) = (if is_attempt e then Suc (attempts es) else attempts es)"
  by (simp_all add: attempts_def)

lemma quiet_alerts: "list_all quiet es \<Longrightarrow> alerts es = []"
  by (induction es) (auto elim: quiet.elims)

lemma quiet_attempts: "list_all quiet es \<Longrightarrow> attempts es = 0"
  by (induction es) (auto elim: quiet.elims)

lemma quiet_writes: "list_all quiet es \<Longrightarrow> filter is_write es = []"
  by (induction es) (auto elim: quiet.elims)

subsection \<open>The backends and the dispatch\<close>

lemma telegram_trace:
  "\<exists>es. list_all quiet es \<and> trace (snd (sendTelegramMessage cfg orc k msg w)) = trace w @ es"
  by (auto simp: sendTelegramMessage_def Let_def list_all_iff split: outcome.splits option.splits)

lemma telegram_fields [simp]:
  "lastStatus (snd (sendTelegramMessage cfg orc k msg w)) = lastStatus w"
  "gets (snd (sendTelegramMessage cfg orc k msg w)) = gets w"
  "dispatches (snd (sendTelegramMessage cfg orc k msg w)) = dispatches w"
  by (auto simp: sendTelegramMessage_def Let_def split: outcome.splits option.splits)

lemma telegram_result:
  "fst (sendTelegramMessage cfg orc k msg w) =
     (if telegram_safe cfg orc k then Resolved () else Rejected undefined_data_error)"
  by (auto simp: sendTelegramMessage_def telegram_safe_def Let_def split: outcome.splits option.splits)

lemma slack_trace:
  "\<exists>es. list_all quiet es \<and> trace (snd (sendSlackMessage cfg orc k msg w)) = trace w @ es"
  by (auto simp: sendSlackMessage_def Let_def split: outcome.splits)

lemma slack_fields [simp]:
  "lastStatus (snd (sendSlackMessage cfg orc k msg w)) = lastStatus w"
  "gets (snd (sendSlackMessage cfg orc k msg w)) = gets w"
  "dispatches (snd (sendSlackMessage cfg orc k msg w)) = dispatches w"
  "fst (sendSlackMessage cfg orc k msg w) = Resolved ()"
  by (auto simp: sendSlackMessage_def Let_def split: outcome.splits)

lemma sms_trace:
  "\<exists>es. list_all quiet es \<and> trace (snd (sendSmsMessage cfg orc k msg w)) = trace w @ es"
  by (auto simp: sendSmsMessage_def http_post_def Let_def)

lemma sms_fields [simp]:
  "lastStatus (snd (sendSmsMessage cfg orc k msg w)) = lastStatus w"
  "gets (snd (sendSmsMessage cfg orc k msg w)) = gets w"
  "dispatches (snd (sendSmsMessage cfg orc k msg w)) = dispatches w"
  "fst (sendSmsMessage cfg orc k msg w) = Resolved ()"
  by (auto simp: sendSmsMessage_def http_post_def Let_def)

lemma sendNotification_result:
  "fst (sendNotification cfg orc msg w) =
     (if telegram_safe cfg orc (dispatches w) then Resolved () else Rejected undefined_data_error)"
  using telegram_result [of cfg orc "dispatches w" msg]
  by (auto simp: sendNotification_def Let_def split_beta split: outcome.splits prod.splits)

lemma sendNotification_fields [simp]:
  "lastStatus (snd (sendNotification cfg orc msg w)) = lastStatus w"
  "gets (snd (sendNotification cfg orc msg w)) = gets w"
  "dispatches (snd (sendNotification cfg orc msg w)) = dispatches w + 1"
  by (auto simp: sendNotification_def Let_def split_beta split: outcome.splits prod.splits)

lemma sendNotification_trace:
  "\<exists>es. list_all quiet es \<and>
     trace (snd (sendNotification cfg orc msg w)) = trace w @ Notify msg # es"
proof -
  define w0 where "w0 = (emit (Notify msg) w)\<lparr>dispatches := dispatches w + 1\<rparr>"
  define w1 where "w1 = snd (sendTelegramMessage cfg orc (dispatches w) msg w0)"
  define w2 where "w2 = snd (sendSlackMessage cfg orc (dispatches w) msg w1)"
  define w3 where "w3 = snd (sendSmsMessage cfg orc (dispatches w) msg w2)"
  have final: "snd (sendNotification cfg orc msg w) = w3"
    by (simp add: sendNotification_def Let_def split_beta w0_def w1_def w2_def w3_def
        split: outcome.splits)
  obtain es1 where e1: "list_all quiet es1" "trace w1 = trace w0 @ es1"
    using telegram_trace [of cfg orc "dispatches w" msg w0] by (auto simp: w1_def)
  obtain es2 where e2: "list_all quiet es2" "trace w2 = trace w1 @ es2"
    using slack_trace [of cfg orc "dispatches w" msg w1] by (auto simp: w2_def)
  obtain es3 where e3: "list_all quiet es3" "trace w3 = trace w2 @ es3"
    using sms_trace [of cfg orc "dispatches w" msg w2] by (auto simp: w3_def)
  have "trace w0 = trace w @ [Notify msg]"
    by (simp add: w0_def)
  with e1 e2 e3 have "trace w3 = trace w @ Notify msg # (es1 @ es2 @ es3)"
    by simp
  moreover have "list_all quiet (es1 @ es2 @ es3)"
    using e1 e2 e3 by simp
  ultimately show ?thesis
    using final by metis
qed

lemma sendNotification_alerts [simp]:
  "alerts (trace (snd (sendNotification cfg orc msg w))) = alerts (trace w) @ [msg]"
  using sendNotification_trace [of cfg orc msg w] by (auto simp: quiet_alerts)

lemma sendNotification_attempts [simp]:
  "attempts (trace (snd (sendNotification cfg orc msg w))) = attempts (trace w)"
  using sendNotification_trace [of cfg orc msg w] by (auto simp: quiet_attempts)

subsection \<open>The body of the try block\<close>

lemma try_body_rejected:
  "http_get orc (gets w) = Rejected e \<Longrightarrow>
   try_body cfg orc w =
     (Rejected e, (emit (HttpGet (render (URL_TO_CHECK cfg))) w)\<lparr>gets := gets w + 1\<rparr>)"
  by (simp add: try_body_def Let_def)

lemma try_body_gets [simp]: "gets (snd (try_body cfg orc w)) = gets w + 1"
  by (auto simp: try_body_def Let_def split_beta split: outcome.splits prod.splits)

lemma try_body_same:
  assumes "http_get orc (gets w) = Resolved resp" and "lastStatus w = JNum (status resp)"
  shows "fst (try_body cfg orc w) = Resolved ()"
    and "lastStatus (snd (try_body cfg orc w)) = JNum (status resp)"
    and "alerts (trace (snd (try_body cfg orc w))) = alerts (trace w)"
    and "attempts (trace (snd (try_body cfg orc w))) = attempts (trace w) + 1"
    and "dispatches (snd (try_body cfg orc w)) = dispatches w"
  using assms by (auto simp: try_body_def Let_def)

lemma dispatch_then:
  "(case sendNotification cfg orc m w of
      (Rejected e, w4) \<Rightarrow> (Rejected e, w4)
    | (Resolved u, w4) \<Rightarrow> (Resolved (), f w4)) =
   (if telegram_safe cfg orc (dispatches w)
    then (Resolved (), f (snd (sendNotification cfg orc m w)))
    else (Rejected undefined_data_error, snd (sendNotification cfg orc m w)))"
  using sendNotification_result [of cfg orc m w]
  by (cases "sendNotification cfg orc m w") (auto split: outcome.splits if_splits)

lemma try_body_changed:
  assumes "http_get orc (gets w) = Resolved resp" and "lastStatus w \<noteq> JNum (status resp)"
  shows "fst (try_body cfg orc w) =
           (if telegram_safe cfg orc (dispatches w) then Resolved ()
            else Rejected undefined_data_error)"
    and "lastStatus (snd (try_body cfg orc w)) =
           (if telegram_safe cfg orc (dispatches w) then JNum (status resp) else lastStatus w)"
    and "alerts (trace (snd (try_body cfg orc w))) =
           alerts (trace w) @ [alert_text cfg (status resp)]"
    and "attempts (trace (snd (try_body cfg orc w))) = attempts (trace w) + 1"
    and "dispatches (snd (try_body cfg orc w)) = dispatches w + 1"
  using assms by (auto simp: try_body_def Let_def dispatch_then alert_text_def)

subsection \<open>Where the cell is written\<close>

lemma quiet_not_write: "list_all quiet es \<Longrightarrow> list_all (\<lambda>e. \<not> is_write e) es"
  by (induction es) (auto elim: quiet.elims)

lemma dispatch_then_shape:
  fixes cfg :: config and orc :: transport and m :: string
  assumes "list_all (\<lambda>e. \<not> is_write e) pre" and "trace w3 = trace w @ pre"
    and "lastStatus w3 = lastStatus w" and "status_ok v"
  defines "res \<equiv> (case sendNotification cfg orc m w3 of
                     (Rejected e, w4) \<Rightarrow> (Rejected e, w4)
                   | (Resolved u, w4) \<Rightarrow> (Resolved (), assign v w4))"
  shows "step_shape w res"
proof -
  obtain es where es: "list_all quiet es"
      "trace (snd (sendNotification cfg orc m w3)) = trace w3 @ Notify m # es"
    using sendNotification_trace by blast
  have "list_all (\<lambda>e. \<not> is_write e) (pre @ Notify m # es)"
    using assms(1) quiet_not_write [OF es(1)] by simp
  then show ?thesis
    using es(2) assms(2,3,4) unfolding res_def dispatch_then step_shape_def
    by (intro exI [of _ "pre @ Notify m # es"]) auto
qed

lemma try_body_shape: "step_shape w (try_body cfg orc w)"
proof (cases "http_get orc (gets w)")
  case (Rejected e)
  then show ?thesis
    by (auto simp: try_body_rejected step_shape_def
          intro!: exI [of _ "[HttpGet (render (URL_TO_CHECK cfg))]"])
next
  case (Resolved resp)
  define url where "url = render (URL_TO_CHECK cfg)"
  define w1 where "w1 = (emit (HttpGet url) w)\<lparr>gets := gets w + 1\<rparr>"
  show ?thesis
  proof (cases "lastStatus w = JNum (status resp)")
    case True
    with Resolved show ?thesis
      by (cases "status resp = 200")
         (auto simp: try_body_def Let_def step_shape_def
           intro: exI [of _ "[HttpGet (render (URL_TO_CHECK cfg)),
                              Console LOG [ResponseObject (data resp) (status resp)]]"]
                  exI [of _ "[HttpGet (render (URL_TO_CHECK cfg))]"])
  next
    case False
    show ?thesis
    proof (cases "status resp = 200")
      case True
      define w3 where "w3 = console INFO [Text (''Website is back online: '' @ url)]
                              (console LOG [ResponseObject (data resp) (status resp)] w1)"
      have eq: "try_body cfg orc w =
          (case sendNotification cfg orc (''Website is back online: '' @ url) w3 of
             (Rejected e, w4) \<Rightarrow> (Rejected e, w4)
           | (Resolved u, w4) \<Rightarrow> (Resolved (), assign (JNum 200) w4))"
        using Resolved True False by (simp add: try_body_def Let_def w3_def w1_def url_def)
      show ?thesis
        unfolding eq
        by (rule dispatch_then_shape
              [where pre = "[HttpGet url, Console LOG [ResponseObject (data resp) (status resp)],
                             Console INFO [Text (''Website is back online: '' @ url)]]"])
           (simp_all add: w3_def w1_def)
    next
      case ne: False
      define w3 where "w3 = console WARN
                              [Text (''Website down! Status: '' @ show_int (status resp))] w1"
      have eq: "try_body cfg orc w =
          (case sendNotification cfg orc (''Website down! Status: '' @ show_int (status resp)) w3 of
             (Rejected e, w4) \<Rightarrow> (Rejected e, w4)
           | (Resolved u, w4) \<Rightarrow> (Resolved (), assign (JNum (status resp)) w4))"
        using Resolved ne False by (simp add: try_body_def Let_def w3_def w1_def url_def)
      show ?thesis
        unfolding eq
        by (rule dispatch_then_shape
              [where pre = "[HttpGet url,
                             Console WARN [Text (''Website down! Status: '' @ show_int (status resp))]]"])
           (simp_all add: w3_def w1_def)
    qed
  qed
qed

lemma step_shape_extend:
  assumes "step_shape w' res" and "trace w' = trace w @ pre"
    and "list_all (\<lambda>e. \<not> is_write e) pre" and "lastStatus w' = lastStatus w"
  shows "step_shape w res"
proof -
  obtain es where es: "list_all (\<lambda>e. \<not> is_write e) es"
    "case fst res of
       Resolved u \<Rightarrow>
         (\<exists>v. trace (snd res) = trace w' @ es @ [Assign v] \<and>
              lastStatus (snd res) = v \<and> status_ok v)
     | Rejected e \<Rightarrow> trace (snd res) = trace w' @ es \<and> lastStatus (snd res) = lastStatus w'"
    using assms(1) unfolding step_shape_def by blast
  show ?thesis
    unfolding step_shape_def
    using es assms(2,3,4)
    by (intro exI [of _ "pre @ es"]) (auto split: outcome.splits)
qed

lemma step_shape_rejectedD:
  "step_shape w (Rejected e, w1) \<Longrightarrow>
   \<exists>es. list_all (\<lambda>e. \<not> is_write e) es \<and> trace w1 = trace w @ es \<and> lastStatus w1 = lastStatus w"
  by (auto simp: step_shape_def)

lemma checkWebsite_shape: "step_shape w (checkWebsite cfg orc retries w)"
proof (induction cfg orc retries w rule: checkWebsite.induct)
  case (1 cfg orc retries w)
  show ?case
  proof (cases "try_body cfg orc w")
    case (Pair r w1)
    show ?thesis
    proof (cases r)
      case (Resolved u)
      with Pair try_body_shape [of w cfg orc] show ?thesis
        by (simp add: checkWebsite.simps [of cfg orc retries w])
    next
      case (Rejected error)
      obtain es0 where es0: "list_all (\<lambda>e. \<not> is_write e) es0" "trace w1 = trace w @ es0"
          "lastStatus w1 = lastStatus w"
        using try_body_shape [of w cfg orc] Pair Rejected step_shape_rejectedD by metis
      show ?thesis
      proof (cases "retries < MAX_RETRIES")
        case True
        define line where "line = Console WARN
                 [Text (''Retry '' @ show_nat (retries + 1) @ ''/'' @ show_nat MAX_RETRIES
                        @ '': Checking '' @ render (URL_TO_CHECK cfg) @ '' again...'')]"
        define w2 where "w2 = emit line w1"
        have eq: "checkWebsite cfg orc retries w = checkWebsite cfg orc (retries + 1) w2"
          using Pair Rejected True
          by (simp add: checkWebsite.simps [of cfg orc retries w] w2_def line_def console_def)
        have "step_shape w2 (checkWebsite cfg orc (retries + 1) w2)"
          using "1.IH" [OF Pair [symmetric] Rejected True] 
          by (simp add: w2_def line_def console_def)
        then show ?thesis
          unfolding eq
          by (rule step_shape_extend [where pre = "es0 @ [line]"])
             (use es0 in \<open>simp_all add: w2_def line_def\<close>)
      next
        case False
        show ?thesis
        proof (cases "lastStatus w1 = JStr ''DOWN''")
          case True
          have eq: "checkWebsite cfg orc retries w = (Resolved (), assign (JStr ''DOWN'') w1)"
            using Pair Rejected False True
            by (simp add: checkWebsite.simps [of cfg orc retries w])
          have "status_ok (JStr ''DOWN'')"
            by simp
          then show ?thesis
            unfolding eq step_shape_def using es0(1,2)
            by (intro exI [of _ es0]) simp
        next
          case ne: False
          define w2 where "w2 = console ERROR
                           [Text (''Error accessing the website: '' @ message error)] w1"
          have eq: "checkWebsite cfg orc retries w =
             (case sendNotification cfg orc (''Error accessing the website: '' @ message error) w2 of
                (Rejected e, w3) \<Rightarrow> (Rejected e, w3)
              | (Resolved u, w3) \<Rightarrow> (Resolved (), assign (JStr ''DOWN'') w3))"
            using Pair Rejected False ne
            by (simp add: checkWebsite.simps [of cfg orc retries w] w2_def Let_def)
          show ?thesis
            unfolding eq
            by (rule dispatch_then_shape
                  [where pre = "es0 @ [Console ERROR
                           [Text (''Error accessing the website: '' @ message error)]]"])
               (use es0 in \<open>simp_all add: w2_def\<close>)
        qed
      qed
    qed
  qed
qed

subsection \<open>Cycles and the cell\<close>

lemma new_events_append: "trace w' = trace w @ es \<Longrightarrow> new_events w w' = es"
  by (simp add: new_events_def)

lemma cycle_status_ok:
  "status_ok (lastStatus w) \<Longrightarrow> status_ok (lastStatus (snd (cycle cfg orc w)))"
  using checkWebsite_shape [of w cfg orc 0]
  by (cases "fst (checkWebsite cfg orc 0 w)") (auto simp: cycle_def step_shape_def)

lemma run_cycles_status_ok:
  "status_ok (lastStatus w) \<Longrightarrow> status_ok (lastStatus (run_cycles cfg orc n w))"
  by (induction n arbitrary: w) (simp_all add: cycle_status_ok)

lemma main_lastStatus: "lastStatus (snd (main penv orc)) = JNum 200"
  by (simp add: main_def Let_def initial_world_def)

subsection \<open>Retries\<close>

lemma checkWebsite_retry:
  assumes "http_get orc (gets w) = Rejected e" and "retries < MAX_RETRIES"
  shows "checkWebsite cfg orc retries w =
     checkWebsite cfg orc (retries + 1)
       (console WARN
          [Text (''Retry '' @ show_nat (retries + 1) @ ''/'' @ show_nat MAX_RETRIES
                 @ '': Checking '' @ render (URL_TO_CHECK cfg) @ '' again...'')]
          ((emit (HttpGet (render (URL_TO_CHECK cfg))) w)\<lparr>gets := gets w + 1\<rparr>))"
  using assms
  by (simp add: checkWebsite.simps [of cfg orc retries w] try_body_rejected)

lemma checkWebsite_give_up:
  assumes "http_get orc (gets w) = Rejected e" and "\<not> retries < MAX_RETRIES"
  shows "checkWebsite cfg orc retries w =
     (let w1 = (emit (HttpGet (render (URL_TO_CHECK cfg))) w)\<lparr>gets := gets w + 1\<rparr>
      in if lastStatus w \<noteq> JStr ''DOWN'' then
           (let w2 = console ERROR [Text (''Error accessing the website: '' @ message e)] w1
            in if telegram_safe cfg orc (dispatches w)
               then (Resolved (),
                     assign (JStr ''DOWN'')
                       (snd (sendNotification cfg orc
                               (''Error accessing the website: '' @ message e) w2)))
               else (Rejected undefined_data_error,
                     snd (sendNotification cfg orc
                            (''Error accessing the website: '' @ message e) w2)))
         else (Resolved (), assign (JStr ''DOWN'') w1))"
  using assms
  by (simp add: checkWebsite.simps [of cfg orc retries w] try_body_rejected Let_def
      dispatch_then)

lemma retry_step_fields [simp]:
  "lastStatus (retry_step cfg n w) = lastStatus w"
  "trace (retry_step cfg n w) = trace w @ [HttpGet (render (URL_TO_CHECK cfg)), retry_line cfg n]"
  "gets (retry_step cfg n w) = gets w + 1"
  "dispatches (retry_step cfg n w) = dispatches w"
  by (simp_all add: retry_step_def)

lemma checkWebsite_retry_step:
  assumes "http_get orc (gets w) = Rejected e" and "retries < MAX_RETRIES"
  shows "checkWebsite cfg orc retries w = checkWebsite cfg orc (Suc retries) (retry_step cfg (Suc retries) w)"
  using checkWebsite_retry [where cfg = cfg, OF assms]
  by (simp add: retry_step_def retry_line_def console_def)

lemma retry_line_text:
  "retry_line cfg 1 =
     Console WARN [Text (''Retry 1/3: Checking '' @ render (URL_TO_CHECK cfg) @ '' again...'')]"
  "retry_line cfg 2 =
     Console WARN [Text (''Retry 2/3: Checking '' @ render (URL_TO_CHECK cfg) @ '' again...'')]"
  "retry_line cfg 3 =
     Console WARN [Text (''Retry 3/3: Checking '' @ render (URL_TO_CHECK cfg) @ '' again...'')]"
  by (simp_all add: retry_line_def MAX_RETRIES_def show_nat.simps) code_simp+

subsection \<open>Startup\<close>



lemma split_list_missing: "split_list None = []"
  by (simp add: split_list_def truthy_def)


subsection \<open>The transitions when the dispatch returns normally\<close>

text \<open>
  A cycle whose probe is answered, and whose dispatch (if any) returns normally, makes one
  attempt, alerts exactly when the status differs from the cell, and stores the status.
\<close>

lemma checkWebsite_resolved:
  "fst (try_body cfg orc w) = Resolved u \<Longrightarrow> checkWebsite cfg orc retries w = try_body cfg orc w"
  by (cases "try_body cfg orc w") (simp add: checkWebsite.simps [of cfg orc retries w])

lemma cycle_reply:
  assumes "http_get orc (gets w) = Resolved resp" and "telegram_safe cfg orc (dispatches w)"
  shows "fst (cycle cfg orc w) = Resolved ()"
    and "lastStatus (snd (cycle cfg orc w)) = JNum (status resp)"
    and "alerts (trace (snd (cycle cfg orc w))) =
           alerts (trace w) @
           (if lastStatus w = JNum (status resp) then [] else [alert_text cfg (status resp)])"
    and "attempts (trace (snd (cycle cfg orc w))) = attempts (trace w) + 1"
    and "gets (snd (cycle cfg orc w)) = gets w + 1"
    and "dispatches (snd (cycle cfg orc w)) =
           dispatches w + (if lastStatus w = JNum (status resp) then 0 else 1)"
proof -
  have r: "fst (try_body cfg orc w) = Resolved ()"
    using assms try_body_same(1) [of orc w resp cfg] try_body_changed(1) [of orc w resp cfg]
    by (cases "lastStatus w = JNum (status resp)") simp_all
  have c: "cycle cfg orc w = try_body cfg orc w"
    unfolding cycle_def using r by (rule checkWebsite_resolved)
  show "fst (cycle cfg orc w) = Resolved ()"
    by (simp add: c r)
  show "lastStatus (snd (cycle cfg orc w)) = JNum (status resp)"
    using assms try_body_same(2) [of orc w resp cfg] try_body_changed(2) [of orc w resp cfg]
    by (cases "lastStatus w = JNum (status resp)") (simp_all add: c)
  show "alerts (trace (snd (cycle cfg orc w))) =
           alerts (trace w) @
           (if lastStatus w = JNum (status resp) then [] else [alert_text cfg (status resp)])"
    using assms try_body_same(3) [of orc w resp cfg] try_body_changed(3) [of orc w resp cfg]
    by (cases "lastStatus w = JNum (status resp)") (simp_all add: c)
  show "attempts (trace (snd (cycle cfg orc w))) = attempts (trace w) + 1"
    using assms try_body_same(4) [of orc w resp cfg] try_body_changed(4) [of orc w resp cfg]
    by (cases "lastStatus w = JNum (status resp)") (simp_all add: c)
  show "gets (snd (cycle cfg orc w)) = gets w + 1"
    by (simp add: c)
  show "dispatches (snd (cycle cfg orc w)) =
           dispatches w + (if lastStatus w = JNum (status resp) then 0 else 1)"
    using assms try_body_same(5) [of orc w resp cfg] try_body_changed(5) [of orc w resp cfg]
    by (cases "lastStatus w = JNum (status resp)") (simp_all add: c)
qed

lemma steady_replies:
  assumes "\<And>k. status (reply k) = c" and "\<And>k. http_get orc k = Resolved (reply k)"
    and "\<And>k. telegram_safe cfg orc k"
  shows "alerts (trace (run_cycles cfg orc (Suc n) w)) =
           alerts (trace w) @ (if lastStatus w = JNum c then [] else [alert_text cfg c])
         \<and> lastStatus (run_cycles cfg orc (Suc n) w) = JNum c
         \<and> attempts (trace (run_cycles cfg orc (Suc n) w)) = attempts (trace w) + Suc n"
proof (induction n arbitrary: w)
  case 0
  show ?case
    using cycle_reply(2,3,4) [OF assms(2) assms(3), of w] assms(1) by simp
next
  case (Suc n)
  define w1 where "w1 = snd (cycle cfg orc w)"
  have l1: "lastStatus w1 = JNum c"
    and a1: "alerts (trace w1) =
               alerts (trace w) @ (if lastStatus w = JNum c then [] else [alert_text cfg c])"
    and t1: "attempts (trace w1) = attempts (trace w) + 1"
    using cycle_reply(2,3,4) [OF assms(2) assms(3), of w] assms(1) by (simp_all add: w1_def)
  have "run_cycles cfg orc (Suc (Suc n)) w = run_cycles cfg orc (Suc n) w1"
    by (simp add: w1_def)
  then show ?case
    using Suc.IH [of w1] l1 a1 t1 by simp
qed

lemma flap_three_alerts:
  assumes "http_get orc (gets w) = Resolved r0" "status r0 = 500"
    and "http_get orc (gets w + 1) = Resolved r1" "status r1 = 503"
    and "http_get orc (gets w + 2) = Resolved r2" "status r2 = 500"
    and "\<And>k. telegram_safe cfg orc k" and "lastStatus w = JNum 200"
  shows "alerts (trace (run_cycles cfg orc 3 w)) =
           alerts (trace w) @ [''Website down! Status: 500'', ''Website down! Status: 503'',
                               ''Website down! Status: 500'']"
proof -
  define w1 where "w1 = snd (cycle cfg orc w)"
  define w2 where "w2 = snd (cycle cfg orc w1)"
  define w3 where "w3 = snd (cycle cfg orc w2)"
  have s500: "show_int 500 = ''500''" and s503: "show_int 503 = ''503''"
    by code_simp+
  have 1: "lastStatus w1 = JNum 500" "gets w1 = gets w + 1"
      "alerts (trace w1) = alerts (trace w) @ [''Website down! Status: 500'']"
    using cycle_reply(2,3,5) [OF assms(1) assms(7)] assms(2,8)
    by (simp_all add: w1_def alert_text_def s500)
  have 2: "lastStatus w2 = JNum 503" "gets w2 = gets w + 2"
      "alerts (trace w2) = alerts (trace w1) @ [''Website down! Status: 503'']"
    using cycle_reply(2,3,5) [where w = w1 and resp = r1 and orc = orc and cfg = cfg] assms(3,4,7) 1
    by (simp_all add: w2_def alert_text_def s503)
  have 3: "alerts (trace w3) = alerts (trace w2) @ [''Website down! Status: 500'']"
    using cycle_reply(3) [where w = w2 and resp = r2 and orc = orc and cfg = cfg] assms(5,6,7) 2
    by (simp_all add: w3_def alert_text_def s500)
  have "run_cycles cfg orc 3 w = w3"
    by (simp add: numeral_3_eq_3 w1_def w2_def w3_def)
  then show ?thesis
    using 1 2 3 by simp
qed

lemma back_online_once:
  assumes "http_get orc (gets w) = Resolved resp" and "status resp = 200"
    and "telegram_safe cfg orc (dispatches w)"
  shows "fst (cycle cfg orc w) = Resolved ()"
    and "lastStatus (snd (cycle cfg orc w)) = JNum 200"
    and "alerts (trace (snd (cycle cfg orc w))) =
           alerts (trace w) @
           (if lastStatus w = JNum 200 then []
            else [''Website is back online: '' @ render (URL_TO_CHECK cfg)])"
  using cycle_reply(1,2,3) [OF assms(1) assms(3)] assms(2) by (simp_all add: alert_text_def)

subsection \<open>A cycle that finds the status already in the cell\<close>




subsection \<open>A cycle in which no probe is answered\<close>

lemma cycle_unreachable:
  assumes "\<And>k. http_get orc k = Rejected (err k)"
  shows "MAX_RETRIES + 1 = 4
    \<and> attempts (new_events w (snd (cycle cfg orc w))) = MAX_RETRIES + 1
    \<and> take 7 (new_events w (snd (cycle cfg orc w))) =
        [HttpGet (render (URL_TO_CHECK cfg)), retry_line cfg 1,
         HttpGet (render (URL_TO_CHECK cfg)), retry_line cfg 2,
         HttpGet (render (URL_TO_CHECK cfg)), retry_line cfg 3,
         HttpGet (render (URL_TO_CHECK cfg))]
    \<and> alerts (new_events w (snd (cycle cfg orc w))) =
        (if lastStatus w = JStr ''DOWN'' then []
         else [''Error accessing the website: '' @ message (err (gets w + 3))])
    \<and> (fst (cycle cfg orc w) = Resolved () \<longrightarrow> lastStatus (snd (cycle cfg orc w)) = JStr ''DOWN'')"
proof -
  define url where "url = render (URL_TO_CHECK cfg)"
  define w1 where "w1 = retry_step cfg 1 w"
  define w2 where "w2 = retry_step cfg 2 w1"
  define w3 where "w3 = retry_step cfg 3 w2"
  define w4 where "w4 = (emit (HttpGet url) w3)\<lparr>gets := gets w3 + 1\<rparr>"
  define errmsg where "errmsg = ''Error accessing the website: '' @ message (err (gets w + 3))"
  have s0: "checkWebsite cfg orc 0 w = checkWebsite cfg orc 1 w1"
    using checkWebsite_retry_step [where retries = 0 and w = w and cfg = cfg, OF assms] by (simp add: MAX_RETRIES_def w1_def)
  have s1: "checkWebsite cfg orc 1 w1 = checkWebsite cfg orc 2 w2"
    using checkWebsite_retry_step [where retries = 1 and w = w1 and cfg = cfg, OF assms]
    by (simp add: MAX_RETRIES_def w2_def numeral_2_eq_2)
  have s2: "checkWebsite cfg orc 2 w2 = checkWebsite cfg orc 3 w3"
    using checkWebsite_retry_step [where retries = 2 and w = w2 and cfg = cfg, OF assms]
    by (simp add: MAX_RETRIES_def w3_def numeral_3_eq_3 numeral_2_eq_2)
  have g3: "gets w3 = gets w + 3" and l3: "lastStatus w3 = lastStatus w"
    and d3: "dispatches w3 = dispatches w"
    and t3: "trace w3 = trace w @ [HttpGet url, retry_line cfg 1, HttpGet url, retry_line cfg 2,
                                   HttpGet url, retry_line cfg 3]"
    by (simp_all add: w3_def w2_def w1_def url_def)
  have t4: "trace w4 = trace w @ [HttpGet url, retry_line cfg 1, HttpGet url, retry_line cfg 2,
                                  HttpGet url, retry_line cfg 3, HttpGet url]"
    by (simp add: w4_def t3)
  have c: "cycle cfg orc w = checkWebsite cfg orc 3 w3"
    unfolding cycle_def using s0 s1 s2 by metis
  have gu: "checkWebsite cfg orc 3 w3 =
      (if lastStatus w \<noteq> JStr ''DOWN'' then
         (let w5 = console ERROR [Text errmsg] w4
          in if telegram_safe cfg orc (dispatches w)
             then (Resolved (), assign (JStr ''DOWN'') (snd (sendNotification cfg orc errmsg w5)))
             else (Rejected undefined_data_error, snd (sendNotification cfg orc errmsg w5)))
       else (Resolved (), assign (JStr ''DOWN'') w4))"
    using checkWebsite_give_up [where retries = 3 and w = w3 and cfg = cfg, OF assms]
    by (simp add: MAX_RETRIES_def Let_def g3 l3 d3 w4_def url_def errmsg_def)
  show ?thesis
  proof (cases "lastStatus w = JStr ''DOWN''")
    case True
    then have r: "cycle cfg orc w = (Resolved (), assign (JStr ''DOWN'') w4)"
      by (simp add: c gu)
    have "new_events w (snd (cycle cfg orc w)) =
        [HttpGet url, retry_line cfg 1, HttpGet url, retry_line cfg 2,
         HttpGet url, retry_line cfg 3, HttpGet url, Assign (JStr ''DOWN'')]"
      by (rule new_events_append) (simp add: r t4)
    then show ?thesis
      using True by (simp add: r MAX_RETRIES_def url_def retry_line_def)
  next
    case False
    define w5 where "w5 = console ERROR [Text errmsg] w4"
    obtain es where es: "list_all quiet es"
        "trace (snd (sendNotification cfg orc errmsg w5)) = trace w5 @ Notify errmsg # es"
      using sendNotification_trace by blast
    define tail where "tail = (if telegram_safe cfg orc (dispatches w) then [Assign (JStr ''DOWN'')] else [])"
    have "trace (snd (cycle cfg orc w)) = trace w @
        [HttpGet url, retry_line cfg 1, HttpGet url, retry_line cfg 2,
         HttpGet url, retry_line cfg 3, HttpGet url] @ (Console ERROR [Text errmsg] # Notify errmsg # es @ tail)"
      using False by (simp add: c gu Let_def w5_def [symmetric] es(2) tail_def) (simp add: w5_def t4)
    then have ne: "new_events w (snd (cycle cfg orc w)) =
        [HttpGet url, retry_line cfg 1, HttpGet url, retry_line cfg 2,
         HttpGet url, retry_line cfg 3, HttpGet url] @ (Console ERROR [Text errmsg] # Notify errmsg # es @ tail)"
      by (rule new_events_append)
    have q: "alerts es = []" "attempts es = 0"
      using es(1) by (simp_all add: quiet_alerts quiet_attempts)
    have tl: "alerts tail = []" "attempts tail = 0"
      by (simp_all add: tail_def)
    have ls: "fst (cycle cfg orc w) = Resolved () \<longrightarrow> lastStatus (snd (cycle cfg orc w)) = JStr ''DOWN''"
      using False by (simp add: c gu Let_def)
    show ?thesis
      using False ls q tl unfolding ne
      by (simp add: MAX_RETRIES_def url_def retry_line_def errmsg_def)
  qed
qed


section \<open>The state cell\<close>

text \<open>
  C10. The cell \<^verbatim>\<open>lastStatus\<close> starts as the number 200 and the startup code leaves it
  so. After any number of probe cycles it holds a number or the string \<^verbatim>\<open>"DOWN"\<close>: a
  cycle that returns normally leaves such a value, a cycle that rejects leaves the cell as
  it was. Numbers and the string are values of different primitive types, and the dispatch
  never changes the cell: only \<^verbatim>\<open>checkWebsite\<close> writes it.
\<close>

theorem lastStatus_invariant:
  "lastStatus initial_world = JNum 200
   \<and> lastStatus (snd (main penv orc)) = JNum 200
   \<and> status_ok (lastStatus (run_cycles cfg orc n initial_world))
   \<and> (case fst (cycle cfg orc w) of
         Resolved u \<Rightarrow> status_ok (lastStatus (snd (cycle cfg orc w)))
       | Rejected e \<Rightarrow> lastStatus (snd (cycle cfg orc w)) = lastStatus w)
   \<and> lastStatus (snd (sendNotification cfg orc msg w)) = lastStatus w
   \<and> JNum c \<noteq> JStr s"
proof -
  have "status_ok (lastStatus initial_world)"
    by (simp add: initial_world_def)
  then have run: "status_ok (lastStatus (run_cycles cfg orc n initial_world))"
    by (rule run_cycles_status_ok)
  have one: "case fst (cycle cfg orc w) of
         Resolved u \<Rightarrow> status_ok (lastStatus (snd (cycle cfg orc w)))
       | Rejected e \<Rightarrow> lastStatus (snd (cycle cfg orc w)) = lastStatus w"
    using checkWebsite_shape [of w cfg orc 0]
    by (cases "fst (checkWebsite cfg orc 0 w)") (auto simp: cycle_def step_shape_def)
  show ?thesis
    using run one by (simp add: initial_world_def main_lastStatus)
qed

theorem lastStatus_invariant_witness:
  "lastStatus (snd (main demo_env (steady 503))) = JNum 200
   \<and> lastStatus (snd (main demo_env site_unreachable)) = JNum 200
   \<and> lastStatus (run_cycles demo_config (steady 503) 2 initial_world) = JNum 503
   \<and> status_ok (lastStatus (run_cycles demo_config (steady 503) 2 initial_world))
   \<and> lastStatus (run_cycles demo_config site_unreachable 2 initial_world) = JStr ''DOWN''
   \<and> status_ok (lastStatus (run_cycles demo_config site_unreachable 2 initial_world))"
proof -
  have a: "lastStatus (run_cycles demo_config (steady 503) 2 initial_world)
             = JNum 503"
    by code_simp
  have b: "lastStatus (run_cycles demo_config site_unreachable 2 initial_world) = JStr ''DOWN''"
    by code_simp
  show ?thesis
    using a b
      lastStatus_invariant [where penv = demo_env and orc = "steady 503"
        and cfg = demo_config and n = 2]
      lastStatus_invariant [where penv = demo_env and orc = site_unreachable
        and cfg = demo_config and n = 2]
    by simp
qed




section \<open>Dispatch\<close>

text \<open>
  C2 fails on the code. When the posts to the chat bot are rejected with an error that has
  no \<^verbatim>\<open>response\<close>, the handler of \<^verbatim>\<open>sendTelegramMessage\<close> throws while reading
  \<^verbatim>\<open>error.response.data\<close>, and \<^verbatim>\<open>sendNotification\<close> rejects, for every message and
  every state.
\<close>

theorem dispatch_rejects:
  "fst (sendNotification demo_config (telegram_dead c) msg w) =
     Rejected undefined_data_error"
proof -
  have "\<not> telegram_safe demo_config (telegram_dead c) (dispatches w)"
    by (simp add: telegram_safe_def telegram_dead_def telegram_timeout_def all_delivered_def
        demo_config_def
        load_config_def demo_env_def split_list_def truthy_def render_def timeout_error_def)
  then show ?thesis
    by (simp add: sendNotification_result)
qed

text \<open>
  C9. \<^verbatim>\<open>sendSmsMessage\<close> posts, logs success and resolves; the result is the same
  whatever the bulk-send post settles to, and the failure line of its \<^verbatim>\<open>catch\<close> is never
  logged.
\<close>

theorem sms_fire_and_forget:
  "sendSmsMessage cfg orc k msg w =
     (Resolved (),
      w\<lparr>trace := trace w @
           [SmsPost (SMS_LINE_NUMBER cfg) msg (SMS_PHONE_NUMBERS cfg),
            Console INFO [Text ''Sms message sent.'']]\<rparr>)
   \<and> sendSmsMessage cfg (orc\<lparr>sms_post := settle\<rparr>) k msg w = sendSmsMessage cfg orc k msg w
   \<and> Console ERROR [Text ''Failed to send Sms message:'', Text m]
       \<notin> set (new_events w (snd (sendSmsMessage cfg orc k msg w)))"
  by (simp add: sendSmsMessage_def http_post_def Let_def console_def emit_def emits_def
      new_events_def)

section \<open>Probing and alerting when a dispatch rejects\<close>




text \<open>
  C7 fails on the code. The cell holds \<^verbatim>\<open>"DOWN"\<close> and the probe is answered with 200:
  two alerts that the site is back online are sent in the one cycle.
\<close>

theorem back_online_alerts_twice:
  "alerts (new_events was_down
      (snd (cycle demo_config (first_dispatch_lost 200)
              was_down)))
   = [''Website is back online: http://site.test'', ''Website is back online: http://site.test'']"
  by code_simp

section \<open>The retry bound\<close>

text \<open>
  C4. When every probe request is rejected, one cycle makes exactly
  \<open>MAX_RETRIES + 1 = 4\<close> requests, with the retry lines 1/3, 2/3 and 3/3 between them, and
  then stops: the function is total. The outcome is reported as an access error that
  carries the message of the last (fourth) error, unless the cell already holds
  \<^verbatim>\<open>"DOWN"\<close>, and a cycle that returns normally leaves \<^verbatim>\<open>"DOWN"\<close> in the cell.
\<close>

theorem retry_bound:
  assumes "\<And>k. http_get orc k = Rejected (err k)"
  shows "MAX_RETRIES + 1 = 4
    \<and> attempts (new_events w (snd (cycle cfg orc w))) = MAX_RETRIES + 1
    \<and> take 7 (new_events w (snd (cycle cfg orc w))) =
        [HttpGet (render (URL_TO_CHECK cfg)), retry_line cfg 1,
         HttpGet (render (URL_TO_CHECK cfg)), retry_line cfg 2,
         HttpGet (render (URL_TO_CHECK cfg)), retry_line cfg 3,
         HttpGet (render (URL_TO_CHECK cfg))]
    \<and> alerts (new_events w (snd (cycle cfg orc w))) =
        (if lastStatus w = JStr ''DOWN'' then []
         else [''Error accessing the website: '' @ message (err (gets w + 3))])
    \<and> (fst (cycle cfg orc w) = Resolved () \<longrightarrow> lastStatus (snd (cycle cfg orc w)) = JStr ''DOWN'')"
  using assms by (rule cycle_unreachable)

theorem retry_bound_witness:
  "(\<forall>k. http_get site_unreachable k =
          Rejected \<lparr>message = ''connect ECONNREFUSED'', response = None\<rparr>)
   \<and> attempts (new_events initial_world (snd (cycle demo_config site_unreachable initial_world))) = 4
   \<and> alerts (new_events initial_world (snd (cycle demo_config site_unreachable initial_world))) =
       [''Error accessing the website: connect ECONNREFUSED'']
   \<and> fst (cycle demo_config site_unreachable initial_world) = Resolved ()
   \<and> lastStatus (snd (cycle demo_config site_unreachable initial_world)) = JStr ''DOWN''"
proof -
  have h: "\<And>k. http_get site_unreachable k =
          Rejected ((\<lambda>k. \<lparr>message = ''connect ECONNREFUSED'', response = None\<rparr>) k)"
    by (simp add: site_unreachable_def)
  have r: "fst (cycle demo_config site_unreachable initial_world) = Resolved ()"
    by code_simp
  have l: "lastStatus initial_world \<noteq> JStr ''DOWN''"
    by (simp add: initial_world_def)
  show ?thesis
    using retry_bound [where orc = site_unreachable and w = initial_world and cfg = demo_config, OF h] r l
    by (simp add: site_unreachable_def)
qed

section \<open>Startup\<close>



end
